theory Spec2Isabelle
  imports Main "HOL-Library.Word"
begin

section \<open>The constants module \<^verbatim>\<open>ccfxconstants.cpp\<close>\<close>

text \<open>
  The translation unit defines two namespace-scope \<^verbatim>\<open>const\<close> objects:
  \<^verbatim>\<open>
  const boost::array<boost::int32_t, 4> APPVERSION = { 10, 2, 7, 3 };

  #if defined OS_WIN32
  const std::string PLATFORM_NAME = "Windows XP x86";
  #elif defined OS_UBUNTU
  const std::string PLATFORM_NAME = "Ubuntu i386";
  #elif defined OS_LINUX
  const std::string PLATFORM_NAME = "Linux";
  #elif defined OS_MACOSX
  const std::string PLATFORM_NAME = "MacOSX x64";
  #else
  #error
  #endif
  \<close>
  The first is unconditional. The second is selected by a conditional group of the
  preprocessor, so its value is a function of the set of macro names that are defined
  when the group is reached, and the group may stop the translation with \<^verbatim>\<open>#error\<close>.
\<close>

subsection \<open>The version array\<close>

text \<open>
  \<^verbatim>\<open>boost::int32_t\<close> is a 32-bit two's complement integer: a word of 32 bits whose
  value is read by \<^const>\<open>sint\<close>. The array of four elements is the list of its elements in index order.
\<close>

type_synonym int32_t = "32 word"

definition APPVERSION :: "int32_t list" where
  "APPVERSION = [10, 2, 7, 3]"

subsection \<open>The conditional group\<close>

text \<open>
  A build configuration is the set of macro names defined at the \<^verbatim>\<open>#if\<close>. The operator
  \<^verbatim>\<open>defined\<close> only asks whether a name is in that set, whatever the macro expands to.
\<close>

definition defined_macro :: "string \<Rightarrow> string set \<Rightarrow> bool" where
  "defined_macro m D = (m \<in> D)"

text \<open>The only way the translation can stop: the \<^verbatim>\<open>#error\<close> directive of the last branch.\<close>

datatype build_error = Error_directive

text \<open>
  The group itself, branch by branch in the order of the source: the first branch whose
  macro is defined gives the initialiser of \<^verbatim>\<open>PLATFORM_NAME\<close>, and the \<^verbatim>\<open>#else\<close> branch
  is the error.
\<close>

definition PLATFORM_NAME :: "string set \<Rightarrow> build_error + string" where
  "PLATFORM_NAME D =
     (if defined_macro ''OS_WIN32'' D then Inr ''Windows XP x86''
      else if defined_macro ''OS_UBUNTU'' D then Inr ''Ubuntu i386''
      else if defined_macro ''OS_LINUX'' D then Inr ''Linux''
      else if defined_macro ''OS_MACOSX'' D then Inr ''MacOSX x64''
      else Inl Error_directive)"

text \<open>The macro names the group tests, and the string literals it can select.\<close>

definition recognized_flags :: "string set" where
  "recognized_flags = {''OS_WIN32'', ''OS_UBUNTU'', ''OS_LINUX'', ''OS_MACOSX''}"

definition platform_labels :: "string set" where
  "platform_labels = {''Windows XP x86'', ''Ubuntu i386'', ''Linux'', ''MacOSX x64''}"

subsection \<open>The pairing of flags and labels, as the specification words it\<close>

text \<open>
  The specification describes the selection as a table from flag to label, searched in
  the priority order \<^verbatim>\<open>OS_WIN32\<close>, \<^verbatim>\<open>OS_UBUNTU\<close>, \<^verbatim>\<open>OS_LINUX\<close>, \<^verbatim>\<open>OS_MACOSX\<close>.
  This second description is compared with \<^const>\<open>PLATFORM_NAME\<close> below.
\<close>

definition spec_flag_table :: "(string \<times> string) list" where
  "spec_flag_table =
     [(''OS_WIN32'', ''Windows XP x86''),
      (''OS_UBUNTU'', ''Ubuntu i386''),
      (''OS_LINUX'', ''Linux''),
      (''OS_MACOSX'', ''MacOSX x64'')]"

definition spec_first_match :: "string set \<Rightarrow> (string \<times> string) option" where
  "spec_first_match D = find (\<lambda>(m, l). defined_macro m D) spec_flag_table"

subsection \<open>The running program\<close>

text \<open>
  A process holds the two objects of this translation unit and, in \<open>other_state\<close>,
  every other piece of program state. Static initialisation gives each object the value
  of its initialiser; a translation that stopped with an error yields no process at all.
\<close>

record 'a process =
  APPVERSION_obj :: "int32_t list"
  PLATFORM_NAME_obj :: string
  other_state :: 'a

definition program_start :: "string set \<Rightarrow> 'a \<Rightarrow> build_error + 'a process" where
  "program_start D r =
     (case PLATFORM_NAME D of
        Inl e \<Rightarrow> Inl e
      | Inr p \<Rightarrow> Inr \<lparr>APPVERSION_obj = APPVERSION, PLATFORM_NAME_obj = p, other_state = r\<rparr>)"

text \<open>
  Modelled from the spec: the accessors \<^verbatim>\<open>GetApplicationVersion\<close> and
  \<^verbatim>\<open>GetPlatformName\<close> are not defined in the source, which only defines the two
  objects. The specification names them as the read-only access to \<^verbatim>\<open>APPVERSION\<close> and
  \<^verbatim>\<open>PLATFORM_NAME\<close>, so each is the read of its object: it returns the value stored in
  the process together with the process it leaves behind.
\<close>

definition GetApplicationVersion :: "'a process \<Rightarrow> int32_t list \<times> 'a process" where
  "GetApplicationVersion s = (APPVERSION_obj s, s)"

definition GetPlatformName :: "'a process \<Rightarrow> string \<times> 'a process" where
  "GetPlatformName s = (PLATFORM_NAME_obj s, s)"

text \<open>
  Modelled from the spec: a sequence of accessor calls within one process. The module
  offers no operation besides the two accessors.
\<close>

datatype accessor = Call_GetApplicationVersion | Call_GetPlatformName

datatype returned = Version "int32_t list" | Platform string

fun call :: "accessor \<Rightarrow> 'a process \<Rightarrow> returned \<times> 'a process" where
  "call Call_GetApplicationVersion s = (let (v, s') = GetApplicationVersion s in (Version v, s'))"
| "call Call_GetPlatformName s = (let (p, s') = GetPlatformName s in (Platform p, s'))"

fun calls :: "accessor list \<Rightarrow> 'a process \<Rightarrow> returned list \<times> 'a process" where
  "calls [] s = ([], s)"
| "calls (c # cs) s =
     (let (x, s') = call c s; (xs, s'') = calls cs s' in (x # xs, s''))"

section \<open>Properties of the version array\<close>

text \<open>
  Claim C1: the version constant holds exactly four integers, and they are
  10, 2, 7, 3 in this order.
\<close>

theorem APPVERSION_is_10_2_7_3:
  "length APPVERSION = 4 \<and> map sint APPVERSION = [10, 2, 7, 3]"
  by (simp add: APPVERSION_def)

text \<open>
  Claim C10: each component is a 32-bit two's complement integer, so it lies between
  \<open>- 2\<^sup>3\<^sup>1\<close> and \<open>2\<^sup>3\<^sup>1 - 1\<close>, and the initialisers 10, 2, 7, 3 are stored without loss:
  converted to that width and read back, they are the same integers.
\<close>

theorem APPVERSION_int32_range:
  "(\<forall>v :: int32_t. - (2 ^ 31) \<le> sint v \<and> sint v \<le> 2 ^ 31 - 1)
   \<and> list_all (\<lambda>v. - (2 ^ 31) \<le> sint v \<and> sint v \<le> 2 ^ 31 - 1) APPVERSION
   \<and> APPVERSION = map word_of_int [10, 2, 7, 3]
   \<and> map sint (map word_of_int [10, 2, 7, 3] :: int32_t list) = [10, 2, 7, 3]"
proof -
  have range: "- (2 ^ 31) \<le> sint v \<and> sint v \<le> 2 ^ 31 - 1" for v :: int32_t
    using sint_ge [of v] sint_lt [of v] by simp
  then have "list_all (\<lambda>v. - (2 ^ 31) \<le> sint v \<and> sint v \<le> 2 ^ 31 - 1) APPVERSION"
    by (simp add: list_all_iff)
  moreover have "APPVERSION = map word_of_int [10, 2, 7, 3]"
    by (simp add: APPVERSION_def)
  moreover have "map sint (map word_of_int [10, 2, 7, 3] :: int32_t list) = [10, 2, 7, 3]"
    by simp
  ultimately show ?thesis using range by blast
qed

section \<open>The platform name\<close>

text \<open>What a configuration with exactly one recognised flag says about each test of the group.\<close>

lemma defined_recognized_iff:
  "D \<inter> recognized_flags = {f} \<Longrightarrow> m \<in> recognized_flags \<Longrightarrow> defined_macro m D \<longleftrightarrow> m = f"
  by (auto simp: defined_macro_def)

text \<open>
  Claim C2: in a build configuration whose platform flag is \<open>f\<close>, one of \<^verbatim>\<open>OS_WIN32\<close>,
  \<^verbatim>\<open>OS_UBUNTU\<close>, \<^verbatim>\<open>OS_LINUX\<close>, \<^verbatim>\<open>OS_MACOSX\<close> (other macros may be defined as well),
  the platform name is the label paired with \<open>f\<close>: a non-empty string of the fixed set.
\<close>

theorem PLATFORM_NAME_matches_flag:
  assumes "D \<inter> recognized_flags = {f}"
  shows "\<exists>l. map_of spec_flag_table f = Some l \<and> PLATFORM_NAME D = Inr l
           \<and> l \<noteq> [] \<and> l \<in> platform_labels"
proof -
  have f: "f \<in> recognized_flags" using assms by blast
  have d: "\<And>m. m \<in> recognized_flags \<Longrightarrow> defined_macro m D \<longleftrightarrow> m = f"
    using assms by (rule defined_recognized_iff)
  have ds: "defined_macro ''OS_WIN32'' D \<longleftrightarrow> ''OS_WIN32'' = f"
    "defined_macro ''OS_UBUNTU'' D \<longleftrightarrow> ''OS_UBUNTU'' = f"
    "defined_macro ''OS_LINUX'' D \<longleftrightarrow> ''OS_LINUX'' = f"
    "defined_macro ''OS_MACOSX'' D \<longleftrightarrow> ''OS_MACOSX'' = f"
    by (rule d, simp add: recognized_flags_def)+
  from f consider "f = ''OS_WIN32''" | "f = ''OS_UBUNTU''" | "f = ''OS_LINUX''" | "f = ''OS_MACOSX''"
    by (auto simp: recognized_flags_def)
  then show ?thesis
  proof cases
    case 1
    then show ?thesis by (simp add: PLATFORM_NAME_def ds spec_flag_table_def platform_labels_def)
  next
    case 2
    then show ?thesis by (simp add: PLATFORM_NAME_def ds spec_flag_table_def platform_labels_def)
  next
    case 3
    then show ?thesis by (simp add: PLATFORM_NAME_def ds spec_flag_table_def platform_labels_def)
  next
    case 4
    then show ?thesis by (simp add: PLATFORM_NAME_def ds spec_flag_table_def platform_labels_def)
  qed
qed

theorem PLATFORM_NAME_matches_flag_witness:
  "{''OS_WIN32''} \<inter> recognized_flags = {''OS_WIN32''}
   \<and> PLATFORM_NAME {''OS_WIN32''} = Inr ''Windows XP x86''
   \<and> {''OS_UBUNTU'', ''NDEBUG''} \<inter> recognized_flags = {''OS_UBUNTU''}
   \<and> PLATFORM_NAME {''OS_UBUNTU'', ''NDEBUG''} = Inr ''Ubuntu i386''
   \<and> {''OS_LINUX''} \<inter> recognized_flags = {''OS_LINUX''}
   \<and> PLATFORM_NAME {''OS_LINUX''} = Inr ''Linux''
   \<and> {''_GNU_SOURCE'', ''OS_MACOSX''} \<inter> recognized_flags = {''OS_MACOSX''}
   \<and> PLATFORM_NAME {''_GNU_SOURCE'', ''OS_MACOSX''} = Inr ''MacOSX x64''"
  using PLATFORM_NAME_matches_flag [of "{''OS_WIN32''}" "''OS_WIN32''"]
        PLATFORM_NAME_matches_flag [of "{''OS_UBUNTU'', ''NDEBUG''}" "''OS_UBUNTU''"]
        PLATFORM_NAME_matches_flag [of "{''OS_LINUX''}" "''OS_LINUX''"]
        PLATFORM_NAME_matches_flag [of "{''_GNU_SOURCE'', ''OS_MACOSX''}" "''OS_MACOSX''"]
  by (simp add: recognized_flags_def spec_flag_table_def)

text \<open>
  Claim C3: when none of the four recognised macros is defined, the translation stops at
  the \<^verbatim>\<open>#error\<close> directive: no platform name is produced, whatever else is defined, and no
  process is started.
\<close>

theorem unrecognized_configuration_fails:
  assumes "D \<inter> recognized_flags = {}"
  shows "PLATFORM_NAME D = Inl Error_directive \<and> (\<forall>l. PLATFORM_NAME D \<noteq> Inr l)
         \<and> program_start D r = Inl Error_directive"
proof -
  have "\<not> defined_macro ''OS_WIN32'' D" "\<not> defined_macro ''OS_UBUNTU'' D"
       "\<not> defined_macro ''OS_LINUX'' D" "\<not> defined_macro ''OS_MACOSX'' D"
    using assms by (auto simp: defined_macro_def recognized_flags_def)
  then show ?thesis by (simp add: PLATFORM_NAME_def program_start_def)
qed

theorem unrecognized_configuration_fails_witness:
  "{''NDEBUG'', ''OS_FREEBSD''} \<inter> recognized_flags = {}
   \<and> PLATFORM_NAME {''NDEBUG'', ''OS_FREEBSD''} = Inl Error_directive
   \<and> program_start {''NDEBUG'', ''OS_FREEBSD''} () = Inl Error_directive
   \<and> PLATFORM_NAME {} = Inl Error_directive
   \<and> program_start {} () = Inl Error_directive"
  using unrecognized_configuration_fails [of "{''NDEBUG'', ''OS_FREEBSD''}" "()"]
        unrecognized_configuration_fails [of "{}" "()"]
  by (simp add: recognized_flags_def)

text \<open>Every name the group can produce is one of the four literals.\<close>

lemma PLATFORM_NAME_Inr_label: "PLATFORM_NAME D = Inr l \<Longrightarrow> l \<in> platform_labels"
  by (auto simp: PLATFORM_NAME_def platform_labels_def split: if_splits)

text \<open>One recognised macro that is defined is enough for the translation to go through.\<close>

lemma recognized_defined_builds:
  "m \<in> D \<Longrightarrow> m \<in> recognized_flags \<Longrightarrow> \<exists>l. PLATFORM_NAME D = Inr l"
  by (auto simp: PLATFORM_NAME_def recognized_flags_def defined_macro_def)

text \<open>
  Claim C4: in every build configuration that defines at least one recognised flag, the
  group produces exactly one label of the fixed set: there is one, and there is no second.
\<close>

theorem exactly_one_label:
  assumes "D \<inter> recognized_flags \<noteq> {}"
  shows "\<exists>!l. PLATFORM_NAME D = Inr l \<and> l \<in> platform_labels"
proof -
  from assms obtain m where "m \<in> D" "m \<in> recognized_flags" by blast
  then obtain l where l: "PLATFORM_NAME D = Inr l" using recognized_defined_builds by blast
  then have "l \<in> platform_labels" by (rule PLATFORM_NAME_Inr_label)
  with l show ?thesis by auto
qed

theorem exactly_one_label_witness:
  "{''OS_LINUX'', ''OS_MACOSX'', ''NDEBUG''} \<inter> recognized_flags \<noteq> {}
   \<and> (\<exists>!l. PLATFORM_NAME {''OS_LINUX'', ''OS_MACOSX'', ''NDEBUG''} = Inr l \<and> l \<in> platform_labels)
   \<and> PLATFORM_NAME {''OS_LINUX'', ''OS_MACOSX'', ''NDEBUG''} = Inr ''Linux''"
proof -
  have h: "{''OS_LINUX'', ''OS_MACOSX'', ''NDEBUG''} \<inter> recognized_flags \<noteq> {}"
    by (simp add: recognized_flags_def)
  have v: "PLATFORM_NAME {''OS_LINUX'', ''OS_MACOSX'', ''NDEBUG''} = Inr ''Linux''"
    by (simp add: PLATFORM_NAME_def defined_macro_def)
  show ?thesis using h v exactly_one_label [OF h] by simp
qed

text \<open>The group computes what a search of the table in priority order computes.\<close>

lemma PLATFORM_NAME_first_match:
  "PLATFORM_NAME D =
     (case spec_first_match D of None \<Rightarrow> Inl Error_directive | Some (m, l) \<Rightarrow> Inr l)"
  by (simp add: PLATFORM_NAME_def spec_first_match_def spec_flag_table_def)

text \<open>
  Claim C8: when two or more recognised flags are defined at once, the translation still
  goes through, and the label is that of the first defined flag in the order
  \<^verbatim>\<open>OS_WIN32\<close>, \<^verbatim>\<open>OS_UBUNTU\<close>, \<^verbatim>\<open>OS_LINUX\<close>, \<^verbatim>\<open>OS_MACOSX\<close>.
\<close>

theorem first_match_priority:
  assumes "m1 \<in> D \<inter> recognized_flags" and "m2 \<in> D \<inter> recognized_flags" and "m1 \<noteq> m2"
  shows "\<exists>m l. spec_first_match D = Some (m, l) \<and> PLATFORM_NAME D = Inr l"
proof -
  from assms(1) obtain l where "PLATFORM_NAME D = Inr l"
    using recognized_defined_builds by blast
  then show ?thesis
    by (auto simp: PLATFORM_NAME_first_match split: option.splits)
qed

theorem first_match_priority_witness:
  "''OS_MACOSX'' \<in> {''OS_MACOSX'', ''OS_UBUNTU'', ''OS_LINUX''} \<inter> recognized_flags
   \<and> ''OS_UBUNTU'' \<in> {''OS_MACOSX'', ''OS_UBUNTU'', ''OS_LINUX''} \<inter> recognized_flags
   \<and> spec_first_match {''OS_MACOSX'', ''OS_UBUNTU'', ''OS_LINUX''}
       = Some (''OS_UBUNTU'', ''Ubuntu i386'')
   \<and> PLATFORM_NAME {''OS_MACOSX'', ''OS_UBUNTU'', ''OS_LINUX''} = Inr ''Ubuntu i386''"
  using first_match_priority
    [of "''OS_MACOSX''" "{''OS_MACOSX'', ''OS_UBUNTU'', ''OS_LINUX''}" "''OS_UBUNTU''"]
  by (simp add: recognized_flags_def spec_first_match_def spec_flag_table_def defined_macro_def)

section \<open>The accessors\<close>

text \<open>A call returns its value and hands back the process it was given.\<close>

lemma call_unchanged: "call c s = (fst (call c s), s)"
  by (cases c) (simp_all add: GetApplicationVersion_def GetPlatformName_def)

text \<open>So a sequence of calls is the list of what each call returns in the first state.\<close>

lemma calls_eq: "calls cs s = (map (\<lambda>c. fst (call c s)) cs, s)"
proof (induction cs)
  case Nil
  show ?case by simp
next
  case (Cons c cs)
  have "call c s = (fst (call c s), s)" by (rule call_unchanged)
  then obtain x where x: "call c s = (x, s)" ..
  show ?case by (simp add: x Cons.IH)
qed

lemma program_start_objects:
  "program_start D r = Inr s \<Longrightarrow>
     APPVERSION_obj s = APPVERSION \<and> PLATFORM_NAME D = Inr (PLATFORM_NAME_obj s) \<and> other_state s = r"
  by (auto simp: program_start_def split: sum.splits)

text \<open>
  Claim C5: at every point after program start, that is after any sequence of calls of
  the module's operations, the version array still holds its initial value, has length 4
  and has no negative element.
\<close>

theorem APPVERSION_invariant:
  assumes "program_start D r = Inr s"
  shows "APPVERSION_obj (snd (calls cs s)) = APPVERSION
         \<and> length (APPVERSION_obj (snd (calls cs s))) = 4
         \<and> list_all (\<lambda>v. 0 \<le> sint v) (APPVERSION_obj (snd (calls cs s)))"
proof -
  have "APPVERSION_obj (snd (calls cs s)) = APPVERSION"
    using program_start_objects [OF assms] by (simp add: calls_eq)
  moreover have "length APPVERSION = 4" "list_all (\<lambda>v. 0 \<le> sint v) APPVERSION"
    by (simp_all add: APPVERSION_def)
  ultimately show ?thesis by simp
qed

theorem APPVERSION_invariant_witness:
  "program_start {''OS_MACOSX''} ()
     = Inr \<lparr>APPVERSION_obj = APPVERSION, PLATFORM_NAME_obj = ''MacOSX x64'', other_state = ()\<rparr>
   \<and> map sint (APPVERSION_obj (snd (calls [Call_GetPlatformName, Call_GetApplicationVersion]
       \<lparr>APPVERSION_obj = APPVERSION, PLATFORM_NAME_obj = ''MacOSX x64'', other_state = ()\<rparr>)))
     = [10, 2, 7, 3]"
proof -
  have h: "program_start {''OS_MACOSX''} ()
     = Inr \<lparr>APPVERSION_obj = APPVERSION, PLATFORM_NAME_obj = ''MacOSX x64'', other_state = ()\<rparr>"
    by (simp add: program_start_def PLATFORM_NAME_def defined_macro_def)
  show ?thesis
    using h APPVERSION_invariant [OF h, of "[Call_GetPlatformName, Call_GetApplicationVersion]"]
    by (simp add: APPVERSION_def)
qed

text \<open>
  Claim C6: within one process, any two calls of the same accessor in a sequence of calls
  return equal values.
\<close>

theorem accessors_idempotent:
  assumes "i < length cs" and "j < length cs" and "cs ! i = cs ! j"
  shows "fst (calls cs s) ! i = fst (calls cs s) ! j"
  using assms by (simp add: calls_eq)

theorem accessors_idempotent_witness:
  "fst (calls [Call_GetApplicationVersion, Call_GetPlatformName, Call_GetApplicationVersion]
          \<lparr>APPVERSION_obj = APPVERSION, PLATFORM_NAME_obj = ''Linux'', other_state = ()\<rparr>) ! 0
   = fst (calls [Call_GetApplicationVersion, Call_GetPlatformName, Call_GetApplicationVersion]
          \<lparr>APPVERSION_obj = APPVERSION, PLATFORM_NAME_obj = ''Linux'', other_state = ()\<rparr>) ! 2"
  using accessors_idempotent
    [of 0 "[Call_GetApplicationVersion, Call_GetPlatformName, Call_GetApplicationVersion]" 2
        "\<lparr>APPVERSION_obj = APPVERSION, PLATFORM_NAME_obj = ''Linux'', other_state = ()\<rparr>"]
  by simp

text \<open>
  Claim C7: in a process of a program that was built, each accessor takes nothing but the
  process, returns the value fixed by the build whatever the rest of the program state
  is, and leaves the whole process, the rest of the state included, as it was. It has no
  error result.
\<close>

theorem accessors_pure:
  assumes "program_start D r = Inr s"
  shows "GetApplicationVersion (s\<lparr>other_state := x\<rparr>) = (APPVERSION, s\<lparr>other_state := x\<rparr>)
         \<and> (\<exists>p. PLATFORM_NAME D = Inr p
                \<and> GetPlatformName (s\<lparr>other_state := x\<rparr>) = (p, s\<lparr>other_state := x\<rparr>))"
  using program_start_objects [OF assms]
  by (simp add: GetApplicationVersion_def GetPlatformName_def)

theorem accessors_pure_witness:
  "program_start {''OS_WIN32''} (0 :: nat)
     = Inr \<lparr>APPVERSION_obj = APPVERSION, PLATFORM_NAME_obj = ''Windows XP x86'', other_state = 0\<rparr>
   \<and> GetApplicationVersion
       \<lparr>APPVERSION_obj = APPVERSION, PLATFORM_NAME_obj = ''Windows XP x86'', other_state = 5 :: nat\<rparr>
     = (APPVERSION,
        \<lparr>APPVERSION_obj = APPVERSION, PLATFORM_NAME_obj = ''Windows XP x86'', other_state = 5\<rparr>)
   \<and> GetPlatformName
       \<lparr>APPVERSION_obj = APPVERSION, PLATFORM_NAME_obj = ''Windows XP x86'', other_state = 5 :: nat\<rparr>
     = (''Windows XP x86'',
        \<lparr>APPVERSION_obj = APPVERSION, PLATFORM_NAME_obj = ''Windows XP x86'', other_state = 5\<rparr>)"
proof -
  have h: "program_start {''OS_WIN32''} (0 :: nat)
     = Inr \<lparr>APPVERSION_obj = APPVERSION, PLATFORM_NAME_obj = ''Windows XP x86'', other_state = 0\<rparr>"
    by (simp add: program_start_def PLATFORM_NAME_def defined_macro_def)
  have p: "PLATFORM_NAME {''OS_WIN32''} = Inr ''Windows XP x86''"
    by (simp add: PLATFORM_NAME_def defined_macro_def)
  show ?thesis using h accessors_pure [OF h, of 5] by (simp add: p)
qed

end
